theory Spec2Isabelle
  imports Complex_Main
begin

section \<open>Arrays\<close>

text \<open>
  The reservoir of \<^verbatim>\<open>conceptor/reservoir.py\<close> works on numpy arrays of floats. A
  two-dimensional array is modelled as the list of its rows, a one-dimensional array as a
  list, and the entries are real numbers: floating-point rounding, NaN and infinities are
  not modelled. The one-dimensional empty array \<^verbatim>\<open>np.asarray([])\<close> is the empty list.
\<close>

type_synonym vec = "real list"
type_synonym mat = "real list list"

text \<open>
  The exceptions of the model. \<open>NotANumber\<close> is not an exception: it stands for a result
  whose entries are NaN (a division of zero by zero), with which numpy carries on and
  which the model does not follow.
\<close>

datatype error = ValueError | IndexError | LinAlgError | ZeroDivisionError | NotANumber

definition nrows :: "mat \<Rightarrow> nat" where
  "nrows M = length M"

definition ncols :: "mat \<Rightarrow> nat" where
  "ncols M = (case M of [] \<Rightarrow> 0 | r # _ \<Rightarrow> length r)"

text \<open>\<open>wf_mat r c M\<close>: \<open>M\<close> is an array of shape \<open>(r, c)\<close>.\<close>

definition wf_mat :: "nat \<Rightarrow> nat \<Rightarrow> mat \<Rightarrow> bool" where
  "wf_mat r c M \<longleftrightarrow> length M = r \<and> list_all (\<lambda>row. length row = c) M"

text \<open>\<^verbatim>\<open>a.size\<close>: the number of entries.\<close>

definition np_size :: "mat \<Rightarrow> nat" where
  "np_size M = sum_list (map length M)"

definition dotv :: "vec \<Rightarrow> vec \<Rightarrow> real" where
  "dotv u v = sum_list (map2 (*) u v)"

definition col :: "mat \<Rightarrow> nat \<Rightarrow> vec" where
  "col M j = map (\<lambda>r. r ! j) M"

text \<open>\<^verbatim>\<open>a.T\<close>\<close>

definition np_T :: "mat \<Rightarrow> mat" where
  "np_T M = map (col M) [0..<ncols M]"

definition mat_mul :: "mat \<Rightarrow> mat \<Rightarrow> mat" where
  "mat_mul A B = map (\<lambda>r. map (\<lambda>j. dotv r (col B j)) [0..<ncols B]) A"

text \<open>\<^verbatim>\<open>a.dot(b)\<close> raises ValueError when the inner dimensions differ.\<close>

definition np_dot :: "mat \<Rightarrow> mat \<Rightarrow> error + mat" where
  "np_dot A B = (if ncols A = nrows B then Inr (mat_mul A B) else Inl ValueError)"

definition np_zeros :: "nat \<Rightarrow> nat \<Rightarrow> mat" where
  "np_zeros r c = replicate r (replicate c 0)"

definition np_eye :: "nat \<Rightarrow> mat" where
  "np_eye n = map (\<lambda>i. map (\<lambda>j. if i = j then 1 else 0) [0..<n]) [0..<n]"

text \<open>\<^verbatim>\<open>np.diag\<close> of a one-dimensional array is the diagonal matrix.\<close>

definition np_diag :: "vec \<Rightarrow> mat" where
  "np_diag S = map (\<lambda>i. map (\<lambda>j. if i = j then S ! i else 0) [0..<length S]) [0..<length S]"

text \<open>\<^verbatim>\<open>np.diag\<close> of a two-dimensional array is its diagonal.\<close>

definition np_diagonal :: "mat \<Rightarrow> vec" where
  "np_diagonal M = map (\<lambda>i. M ! i ! i) [0..<min (nrows M) (ncols M)]"

text \<open>scalar times array, array divided by scalar\<close>

definition smul :: "real \<Rightarrow> mat \<Rightarrow> mat" where
  "smul a M = map (map (\<lambda>x. a * x)) M"

definition sdiv :: "mat \<Rightarrow> real \<Rightarrow> mat" where
  "sdiv M a = map (map (\<lambda>x. x / a)) M"

text \<open>
  Elementwise binary operations broadcast as numpy does: along each axis the two lengths
  are equal or one of them is 1, and the array of length 1 is repeated; otherwise
  ValueError.
\<close>

definition bcompat :: "nat \<Rightarrow> nat \<Rightarrow> bool" where
  "bcompat a b \<longleftrightarrow> a = b \<or> a = 1 \<or> b = 1"

definition bdim :: "nat \<Rightarrow> nat \<Rightarrow> nat" where
  "bdim a b = (if a = 1 then b else a)"

definition stretch :: "nat \<Rightarrow> 'a list \<Rightarrow> 'a list" where
  "stretch n xs = (if length xs = 1 then replicate n (hd xs) else xs)"

definition broadcast :: "nat \<Rightarrow> nat \<Rightarrow> mat \<Rightarrow> mat" where
  "broadcast r c M = map (stretch c) (stretch r M)"

definition np_ew :: "(real \<Rightarrow> real \<Rightarrow> real) \<Rightarrow> mat \<Rightarrow> mat \<Rightarrow> error + mat" where
  "np_ew f A B =
     (if bcompat (nrows A) (nrows B) \<and> bcompat (ncols A) (ncols B)
      then (let r = bdim (nrows A) (nrows B); c = bdim (ncols A) (ncols B)
            in Inr (map2 (map2 f) (broadcast r c A) (broadcast r c B)))
      else Inl ValueError)"

definition np_add :: "mat \<Rightarrow> mat \<Rightarrow> error + mat" where
  "np_add = np_ew (+)"

definition np_sub :: "mat \<Rightarrow> mat \<Rightarrow> error + mat" where
  "np_sub = np_ew (-)"

definition np_mul :: "mat \<Rightarrow> mat \<Rightarrow> error + mat" where
  "np_mul = np_ew (*)"

definition np_tanh :: "mat \<Rightarrow> mat" where
  "np_tanh M = map (map tanh) M"

definition np_arctanh :: "mat \<Rightarrow> mat" where
  "np_arctanh M = map (map artanh) M"

text \<open>\<^verbatim>\<open>np.hstack((a, b))\<close> of two-dimensional arrays: ValueError unless the row counts agree.\<close>

definition np_hstack :: "mat \<Rightarrow> mat \<Rightarrow> error + mat" where
  "np_hstack A B = (if nrows A = nrows B then Inr (map2 (@) A B) else Inl ValueError)"

text \<open>\<^verbatim>\<open>np.matlib.repmat(a, 1, n)\<close>: \<open>n\<close> copies of \<open>a\<close> side by side.\<close>

definition repmat_cols :: "mat \<Rightarrow> nat \<Rightarrow> mat" where
  "repmat_cols M n = map (\<lambda>r. concat (replicate n r)) M"

text \<open>\<^verbatim>\<open>a[:, n][None].T\<close>: column \<open>n\<close> as an array of one column.\<close>

definition column :: "mat \<Rightarrow> nat \<Rightarrow> mat" where
  "column M n = map (\<lambda>r. [r ! n]) M"

text \<open>\<^verbatim>\<open>a[:, 0]\<close>: IndexError when \<open>a\<close> has no column.\<close>

definition first_col :: "mat \<Rightarrow> error + vec" where
  "first_col M = (if ncols M = 0 then Inl IndexError else Inr (col M 0))"

text \<open>
  \<^verbatim>\<open>a[:, j] = v\<close> for \<open>j\<close> in range: \<open>v\<close> is broadcast to the column's length, ValueError
  when it cannot be.
\<close>

definition set_col :: "mat \<Rightarrow> nat \<Rightarrow> vec \<Rightarrow> error + mat" where
  "set_col A j v =
     (let v' = stretch (nrows A) v
      in if length v' = nrows A then Inr (map2 (\<lambda>row a. row[j := a]) A v')
         else Inl ValueError)"

text \<open>Sequencing of computations that may raise.\<close>

definition and_then :: "error + 'a \<Rightarrow> ('a \<Rightarrow> error + 'b) \<Rightarrow> error + 'b" where
  "and_then r f = (case r of Inl e \<Rightarrow> Inl e | Inr x \<Rightarrow> f x)"

section \<open>Library routines\<close>

text \<open>
  \<^verbatim>\<open>np.linalg.svd\<close>, \<^verbatim>\<open>np.linalg.inv\<close> and \<^verbatim>\<open>scipy.interpolate.interp1d\<close> are library
  code, and \<^verbatim>\<open>conceptor.logic.PHI\<close> is not among the sources. They are parameters of the
  model: \<open>svd\<close> returns the triple \<open>(U, S, Vt)\<close>, \<open>inv\<close> the inverse, \<open>PHI\<close> the conceptor
  rescaled to an aperture, and \<open>interp1d xs ys pts\<close> the values at \<open>pts\<close> of the cubic
  interpolant through the points \<open>(xs, ys)\<close>; each may raise. What a theorem needs of them
  is stated as a hypothesis.
\<close>

record library =
  svd :: "mat \<Rightarrow> error + (mat \<times> vec \<times> mat)"
  inv :: "mat \<Rightarrow> error + mat"
  PHI :: "mat \<Rightarrow> real \<Rightarrow> error + mat"
  interp1d :: "vec \<Rightarrow> vec \<Rightarrow> vec \<Rightarrow> error + vec"

section \<open>The reservoir\<close>

text \<open>
  The fields of \<^verbatim>\<open>Reservoir\<close>, as \<^verbatim>\<open>__init__\<close> sets them. \<^verbatim>\<open>self.Cs\<close> is a list of four
  lists, \<^verbatim>\<open>Cs[0]\<close> to \<^verbatim>\<open>Cs[3]\<close>: the conceptors, their bases \<open>U\<close>, the diagonals of
  \<open>S_new\<close> and the singular values \<open>S\<close>.
\<close>

record reservoir =
  size_in :: nat
  size_net :: nat
  num_pattern :: nat
  sr :: real
  in_scale :: real
  bias_scale :: real
  varrho_out :: real
  varrho_w :: real
  W_star :: mat
  W_in :: mat
  W_bias :: mat
  W_out :: mat
  W :: mat
  x_collectors :: "mat list"
  pattern_Rs :: "mat list"
  UR_collectors :: "mat list"
  SR_collectors :: "vec list"
  pattern_collectors :: "mat list"
  all_train_args :: mat
  all_train_old_args :: mat
  all_train_outs :: mat
  Cs0 :: "mat list"
  Cs1 :: "mat list"
  Cs2 :: "vec list"
  Cs3 :: "vec list"

text \<open>
  A method either returns, or raises an exception; the object keeps whatever was written
  to it before the exception.
\<close>

datatype outcome = Done reservoir | Raised error reservoir

fun state_of :: "outcome \<Rightarrow> reservoir" where
  "state_of (Done s) = s"
| "state_of (Raised e s) = s"


text \<open>
  \<^verbatim>\<open>__init__\<close>, with the weights that \<^verbatim>\<open>util.init_weights\<close> returned as arguments.
\<close>

definition init :: "nat \<Rightarrow> nat \<Rightarrow> real \<Rightarrow> real \<Rightarrow> real \<Rightarrow> real \<Rightarrow> real \<Rightarrow> mat \<Rightarrow> mat \<Rightarrow> mat \<Rightarrow> reservoir" where
  "init n_in n_net radius iscale bscale v_out v_w Ws Wi Wb =
     \<lparr> size_in = n_in, size_net = n_net, num_pattern = 0,
       sr = radius, in_scale = iscale, bias_scale = bscale,
       varrho_out = v_out, varrho_w = v_w,
       W_star = Ws, W_in = Wi, W_bias = Wb,
       W_out = [], W = [],
       x_collectors = [], pattern_Rs = [], UR_collectors = [], SR_collectors = [],
       pattern_collectors = [],
       all_train_args = [], all_train_old_args = [], all_train_outs = [],
       Cs0 = [], Cs1 = [], Cs2 = [], Cs3 = [] \<rparr>"

definition clean_storage :: "reservoir \<Rightarrow> reservoir" where
  "clean_storage s =
     s\<lparr> W_out := [], W := [],
        x_collectors := [], pattern_Rs := [], UR_collectors := [], SR_collectors := [],
        pattern_collectors := [],
        all_train_args := [], all_train_old_args := [], all_train_outs := [],
        Cs0 := [], Cs1 := [], Cs2 := [], Cs3 := [] \<rparr>"

subsection \<open>Driving the reservoir\<close>

text \<open>One update of the state: \<^verbatim>\<open>np.tanh(self.W_star.dot(x) + self.W_in.dot(u) + self.W_bias)\<close>.\<close>

definition step :: "reservoir \<Rightarrow> mat \<Rightarrow> mat \<Rightarrow> error + mat" where
  "step s x u =
     and_then (np_dot (W_star s) x) (\<lambda>a.
     and_then (np_dot (W_in s) u) (\<lambda>b.
     and_then (np_add a b) (\<lambda>ab.
     and_then (np_add ab (W_bias s)) (\<lambda>c.
     Inr (np_tanh c)))))"

text \<open>
  The loop of \<^verbatim>\<open>drive_reservoir\<close> over the step numbers, on the local arrays
  \<open>(x, x_collector, x_old_collector, p_collector)\<close>. The test \<^verbatim>\<open>n > washout_length - 1\<close>
  is on Python integers, so it is \<open>washout_length \<le> n\<close>.
\<close>

fun drive_loop :: "reservoir \<Rightarrow> mat \<Rightarrow> nat \<Rightarrow> nat list \<Rightarrow> mat \<times> mat \<times> mat \<times> mat
    \<Rightarrow> error + mat \<times> mat \<times> mat \<times> mat" where
  "drive_loop s pattern w [] st = Inr st"
| "drive_loop s pattern w (n # ns) (x, xc, xoc, pc) =
     (let u = column pattern n; x_old = x in
      and_then (step s x u) (\<lambda>x'.
      if w \<le> n then
        and_then (first_col x') (\<lambda>xv.
        and_then (set_col xc (n - w) xv) (\<lambda>xc'.
        and_then (first_col x_old) (\<lambda>xov.
        and_then (set_col xoc (n - w) xov) (\<lambda>xoc'.
        and_then (first_col u) (\<lambda>uv.
        and_then (set_col pc (n - w) uv) (\<lambda>pc'.
        drive_loop s pattern w ns (x', xc', xoc', pc')))))))
      else drive_loop s pattern w ns (x', xc, xoc, pc)))"

text \<open>
  \<^verbatim>\<open>if not self.all_train_args.size: ... = x_collector else: ... = np.hstack(...)\<close>
\<close>

definition store :: "mat \<Rightarrow> mat \<Rightarrow> error + mat" where
  "store agg new = (if np_size agg = 0 then Inr new else np_hstack agg new)"

text \<open>
  \<^verbatim>\<open>drive_reservoir\<close>. \<^verbatim>\<open>np.zeros\<close> raises ValueError on a negative \<^verbatim>\<open>learn_length\<close>. Every
  failure of the loop comes before the first write to \<^verbatim>\<open>self\<close>; the later ones keep the
  writes made before them. With \<^verbatim>\<open>learn_length\<close> 0 the correlation matrix is 0/0 and its
  SVD does not converge.
\<close>

definition drive_reservoir :: "library \<Rightarrow> reservoir \<Rightarrow> mat \<Rightarrow> nat \<Rightarrow> outcome" where
  "drive_reservoir np s pattern washout_length =
     (if ncols pattern < washout_length then Raised ValueError s
      else
        let learn_length = ncols pattern - washout_length in
        case drive_loop s pattern washout_length [0..<washout_length + learn_length]
               (np_zeros (size_net s) 1,
                np_zeros (size_net s) learn_length,
                np_zeros (size_net s) learn_length,
                np_zeros (size_in s) learn_length) of
          Inl e \<Rightarrow> Raised e s
        | Inr (x, x_collector, x_old_collector, p_collector) \<Rightarrow>
            let s1 = s\<lparr> x_collectors := x_collectors s @ [x_collector] \<rparr> in
            if learn_length = 0 then Raised LinAlgError s1
            else
              case np_dot x_collector (np_T x_collector) of
                Inl e \<Rightarrow> Raised e s1
              | Inr XXt \<Rightarrow>
                  let R = sdiv XXt (real learn_length) in
                  case svd np R of
                    Inl e \<Rightarrow> Raised e s1
                  | Inr (Ux, Sx, Vt) \<Rightarrow>
                      let s2 = s1\<lparr> SR_collectors := SR_collectors s1 @ [Sx],
                                    UR_collectors := UR_collectors s1 @ [Ux],
                                    pattern_Rs := pattern_Rs s1 @ [R],
                                    pattern_collectors := pattern_collectors s1 @ [p_collector] \<rparr> in
                      case store (all_train_args s2) x_collector of
                        Inl e \<Rightarrow> Raised e s2
                      | Inr a \<Rightarrow>
                          let s3 = s2\<lparr> all_train_args := a \<rparr> in
                          case store (all_train_old_args s3) x_old_collector of
                            Inl e \<Rightarrow> Raised e s3
                          | Inr b \<Rightarrow>
                              let s4 = s3\<lparr> all_train_old_args := b \<rparr> in
                              case store (all_train_outs s4) p_collector of
                                Inl e \<Rightarrow> Raised e s4
                              | Inr c \<Rightarrow>
                                  Done (s4\<lparr> all_train_outs := c,
                                           num_pattern := num_pattern s4 + 1 \<rparr>))"

subsection \<open>Conceptors\<close>

text \<open>
  The computation of \<^verbatim>\<open>compute_projector\<close> up to its four appends: \<open>(C, U, diag S_new, S)\<close>.
  \<^verbatim>\<open>alpha ** (-2)\<close> raises ZeroDivisionError at 0.
\<close>

definition projector :: "library \<Rightarrow> nat \<Rightarrow> mat \<Rightarrow> real \<Rightarrow> error + (mat \<times> mat \<times> vec \<times> vec)" where
  "projector np n R alpha =
     and_then (svd np R) (\<lambda>(U, S, Vt).
     if alpha = 0 then Inl ZeroDivisionError else
     and_then (np_add (np_diag S) (smul (1 / alpha ^ 2) (np_eye n))) (\<lambda>M.
     and_then (inv np M) (\<lambda>Mi.
     and_then (np_dot (np_diag S) Mi) (\<lambda>S_new.
     and_then (np_dot U S_new) (\<lambda>US.
     and_then (np_dot US (np_T U)) (\<lambda>C.
     Inr (C, U, np_diagonal S_new, S)))))))"

definition compute_projector :: "library \<Rightarrow> reservoir \<Rightarrow> mat \<Rightarrow> real \<Rightarrow> outcome" where
  "compute_projector np s R alpha =
     (case projector np (size_net s) R alpha of
        Inl e \<Rightarrow> Raised e s
      | Inr (C, U, d, S) \<Rightarrow>
          Done (s\<lparr> Cs0 := Cs0 s @ [C], Cs1 := Cs1 s @ [U],
                   Cs2 := Cs2 s @ [d], Cs3 := Cs3 s @ [S] \<rparr>))"

text \<open>
  The loop of \<^verbatim>\<open>compute_projectors\<close> over \<^verbatim>\<open>range(self.num_pattern)\<close>. The body reads
  \<^verbatim>\<open>self.pattern_Rs[p]\<close> and \<^verbatim>\<open>alphas[p]\<close> (IndexError out of range) and then calls
  \<^verbatim>\<open>self.compute_projector(R)\<close> with one argument: the aperture is the default, 10.
\<close>

fun projectors_loop :: "library \<Rightarrow> vec \<Rightarrow> nat list \<Rightarrow> reservoir \<Rightarrow> outcome" where
  "projectors_loop np alphas [] s = Done s"
| "projectors_loop np alphas (p # ps) s =
     (if length (pattern_Rs s) \<le> p then Raised IndexError s
      else if length alphas \<le> p then Raised IndexError s
      else (case compute_projector np s (pattern_Rs s ! p) 10 of
              Raised e s' \<Rightarrow> Raised e s'
            | Done s' \<Rightarrow> projectors_loop np alphas ps s'))"

text \<open>
  \<^verbatim>\<open>self.Cs\<close> always holds four lists, so \<^verbatim>\<open>if self.Cs:\<close> is taken and the bundle is
  emptied before the loop.
\<close>

definition compute_projectors :: "library \<Rightarrow> reservoir \<Rightarrow> vec \<Rightarrow> outcome" where
  "compute_projectors np s alphas =
     projectors_loop np alphas [0..<num_pattern s]
       (s\<lparr> Cs0 := [], Cs1 := [], Cs2 := [], Cs3 := [] \<rparr>)"

subsection \<open>Weights\<close>

text \<open>
  The expression shared by \<^verbatim>\<open>compute_W_out\<close> and \<^verbatim>\<open>compute_W\<close>:
  \<^verbatim>\<open>np.linalg.inv(A.dot(A.T) + rho * np.eye(self.size_net)).dot(A).dot(T.T).T\<close>.
  Before a pattern is stored \<open>A\<close> is the one-dimensional empty array: then \<^verbatim>\<open>A.dot(A.T)\<close>
  is the number 0, and \<^verbatim>\<open>.dot(A)\<close> after the inversion raises ValueError.
\<close>

definition ridge :: "library \<Rightarrow> nat \<Rightarrow> mat \<Rightarrow> mat \<Rightarrow> real \<Rightarrow> error + mat" where
  "ridge np n A T rho =
     (if A = [] then
        and_then (inv np (smul rho (np_eye n))) (\<lambda>Mi. Inl ValueError)
      else
        and_then (np_dot A (np_T A)) (\<lambda>G.
        and_then (np_add G (smul rho (np_eye n))) (\<lambda>M.
        and_then (inv np M) (\<lambda>Mi.
        and_then (np_dot Mi A) (\<lambda>MA.
        and_then (np_dot MA (np_T T)) (\<lambda>Wt.
        Inr (np_T Wt)))))))"

text \<open>The argument \<^verbatim>\<open>varrho_out = None\<close> stands for the configured coefficient.\<close>

definition compute_W_out :: "library \<Rightarrow> reservoir \<Rightarrow> real option \<Rightarrow> outcome" where
  "compute_W_out np s rho_opt =
     (let rho = (case rho_opt of None \<Rightarrow> varrho_out s | Some r \<Rightarrow> r) in
      case ridge np (size_net s) (all_train_args s) (all_train_outs s) rho of
        Inl e \<Rightarrow> Raised e s
      | Inr Wm \<Rightarrow> Done (s\<lparr> W_out := Wm \<rparr>))"

text \<open>
  \<^verbatim>\<open>compute_W\<close>. \<^verbatim>\<open>self.all_train_args.shape[1]\<close> raises IndexError on the one-dimensional
  empty array.
\<close>

definition compute_W :: "library \<Rightarrow> reservoir \<Rightarrow> real option \<Rightarrow> outcome" where
  "compute_W np s rho_opt =
     (let rho = (case rho_opt of None \<Rightarrow> varrho_w s | Some r \<Rightarrow> r) in
      if all_train_args s = [] then Raised IndexError s
      else
        let total_length = ncols (all_train_args s) in
        case np_sub (np_arctanh (all_train_args s)) (repmat_cols (W_bias s) total_length) of
          Inl e \<Rightarrow> Raised e s
        | Inr W_targets \<Rightarrow>
            (case ridge np (size_net s) (all_train_old_args s) W_targets rho of
               Inl e \<Rightarrow> Raised e s
             | Inr Wm \<Rightarrow> Done (s\<lparr> W := Wm \<rparr>)))"

fun train_loop :: "library \<Rightarrow> mat list \<Rightarrow> nat \<Rightarrow> reservoir \<Rightarrow> outcome" where
  "train_loop np [] w s = Done s"
| "train_loop np (p # ps) w s =
     (case drive_reservoir np s p w of
        Raised e s' \<Rightarrow> Raised e s'
      | Done s' \<Rightarrow> train_loop np ps w s')"

definition train :: "library \<Rightarrow> reservoir \<Rightarrow> mat list \<Rightarrow> nat \<Rightarrow> outcome" where
  "train np s patterns washout_length =
     (case train_loop np patterns washout_length s of
        Raised e s' \<Rightarrow> Raised e s'
      | Done s1 \<Rightarrow>
          (case compute_W_out np s1 (Some (varrho_out s1)) of
             Raised e s' \<Rightarrow> Raised e s'
           | Done s2 \<Rightarrow> compute_W np s2 (Some (varrho_w s2))))"

subsection \<open>Recognition\<close>

text \<open>
  \<^verbatim>\<open>np.argmax\<close> of a one-dimensional array: the index of the first largest entry.
\<close>

fun argmax_from :: "nat \<Rightarrow> real \<Rightarrow> nat \<Rightarrow> vec \<Rightarrow> nat" where
  "argmax_from best bv i [] = best"
| "argmax_from best bv i (v # vs) =
     (if bv < v then argmax_from i v (Suc i) vs else argmax_from best bv (Suc i) vs)"

definition np_argmax :: "vec \<Rightarrow> nat" where
  "np_argmax xs = (case xs of [] \<Rightarrow> 0 | v # vs \<Rightarrow> argmax_from 0 v 1 vs)"

text \<open>
  Python's builtin \<^verbatim>\<open>sum\<close> of a two-dimensional array adds its rows: the result is the
  one-dimensional array of the column sums (the number 0 for an array with no row).
\<close>

definition py_sum :: "mat \<Rightarrow> vec" where
  "py_sum M = (if M = [] then [0] else map (\<lambda>j. sum_list (col M j)) [0..<ncols M])"

text \<open>\<^verbatim>\<open>sum(testdata * (C.dot(testdata)))\<close>\<close>

definition evidence_of :: "mat \<Rightarrow> mat \<Rightarrow> error + vec" where
  "evidence_of testdata C =
     and_then (np_dot C testdata) (\<lambda>Ct.
     and_then (np_mul testdata Ct) (\<lambda>P.
     Inr (py_sum P)))"

fun evidence_loop :: "mat \<Rightarrow> mat list \<Rightarrow> error + mat" where
  "evidence_loop testdata [] = Inr []"
| "evidence_loop testdata (C # Cs) =
     and_then (evidence_of testdata C) (\<lambda>e.
     and_then (evidence_loop testdata Cs) (\<lambda>es.
     Inr (e # es)))"

text \<open>
  \<^verbatim>\<open>np.row_stack\<close> raises ValueError on an empty list and on rows of different lengths.
\<close>

definition np_row_stack :: "vec list \<Rightarrow> error + mat" where
  "np_row_stack rows =
     (if rows = [] then Inl ValueError
      else if list_all (\<lambda>r. length r = length (hd rows)) rows then Inr rows
      else Inl ValueError)"

text \<open>\<^verbatim>\<open>np.argmax(evidence, axis = 0)\<close>: for each column, the row of its first largest entry.\<close>

definition np_argmax0 :: "mat \<Rightarrow> nat list" where
  "np_argmax0 E = map (\<lambda>j. np_argmax (col E j)) [0..<ncols E]"

text \<open>
  \<^verbatim>\<open>recognition_predict\<close> and \<^verbatim>\<open>recognition_train\<close> are methods: they are given the
  reservoir and return it with their result.
\<close>

definition recognition_predict :: "reservoir \<Rightarrow> mat \<Rightarrow> mat list \<Rightarrow> (error + nat list \<times> mat) \<times> reservoir" where
  "recognition_predict s testdata C_list =
     (and_then (evidence_loop testdata C_list) (\<lambda>evidence_list.
      and_then (np_row_stack evidence_list) (\<lambda>evidence.
      Inr (np_argmax0 evidence, evidence))), s)"

text \<open>
  \<^verbatim>\<open>np.arange(0, (apN - 1) + 0.01, 0.01)\<close> in exact arithmetic: the points \<open>k / 100\<close> up to
  \<open>apN - 1\<close>.
\<close>

definition intPts :: "nat \<Rightarrow> vec" where
  "intPts apN = map (\<lambda>k. real k * 0.01) [0..<100 * (apN - 1) + 1]"

text \<open>\<^verbatim>\<open>np.linalg.norm(C, 'fro')\<close>\<close>

definition fro :: "mat \<Rightarrow> real" where
  "fro M = sqrt (sum_list (map (\<lambda>r. sum_list (map (\<lambda>x. x ^ 2) r)) M))"

fun norms_loop :: "library \<Rightarrow> mat \<Rightarrow> nat list \<Rightarrow> error + vec" where
  "norms_loop np C_prem [] = Inr []"
| "norms_loop np C_prem (i # is) =
     and_then (PHI np C_prem (2 ^ i)) (\<lambda>C_temp.
     and_then (norms_loop np C_prem is) (\<lambda>ns.
     Inr ((fro C_temp) ^ 2 # ns)))"

text \<open>
  The first lines of the loop body of \<^verbatim>\<open>recognition_train\<close>: the correlation matrix \<open>R\<close>
  of a datum and \<open>C_prem\<close>. The division by \<^verbatim>\<open>data.shape[1]\<close> is 0/0 for a datum with no
  column.
\<close>

definition proto_conceptor :: "library \<Rightarrow> mat \<Rightarrow> error + mat \<times> mat" where
  "proto_conceptor np data =
     and_then (np_dot data (np_T data)) (\<lambda>DDt.
     if ncols data = 0 then Inl NotANumber else
     let R = sdiv DDt (real (ncols data)); I = np_eye (nrows R) in
     and_then (np_add R I) (\<lambda>RI.
     and_then (inv np RI) (\<lambda>RIi.
     and_then (np_dot R RIi) (\<lambda>C_prem.
     Inr (R, C_prem)))))"

text \<open>
  The rest of the loop body: the aperture \<open>apt\<close> chosen for the datum. \<^verbatim>\<open>np.argmax\<close> raises
  ValueError on an empty array.
\<close>

definition choose_aperture :: "library \<Rightarrow> nat \<Rightarrow> mat \<Rightarrow> error + real" where
  "choose_aperture np apN C_prem =
     and_then (norms_loop np C_prem [0..<apN]) (\<lambda>norms.
     and_then (interp1d np (map real [0..<apN]) norms (intPts apN)) (\<lambda>norms_Intpl.
     let norms_Intpl_Grad = map2 (\<lambda>a b. (a - b) / 0.01) (tl norms_Intpl) (butlast norms_Intpl) in
     if norms_Intpl_Grad = [] then Inl ValueError else
     let aptind = np_argmax (map abs norms_Intpl_Grad) in
     if length (intPts apN) \<le> aptind then Inl IndexError
     else Inr (2 powr (intPts apN ! aptind))))"

fun data_loop :: "library \<Rightarrow> nat \<Rightarrow> mat list \<Rightarrow> error + (mat \<times> mat \<times> real) list" where
  "data_loop np apN [] = Inr []"
| "data_loop np apN (data # ds) =
     and_then (proto_conceptor np data) (\<lambda>(R, C_prem).
     and_then (choose_aperture np apN C_prem) (\<lambda>apt.
     and_then (data_loop np apN ds) (\<lambda>rest.
     Inr ((R, C_prem, apt) # rest))))"

fun phi_loop :: "library \<Rightarrow> real \<Rightarrow> mat list \<Rightarrow> error + mat list" where
  "phi_loop np apt [] = Inr []"
| "phi_loop np apt (C_prem # Cs) =
     and_then (PHI np C_prem apt) (\<lambda>C.
     and_then (phi_loop np apt Cs) (\<lambda>rest.
     Inr (C # rest)))"

text \<open>What \<^verbatim>\<open>recognition_train\<close> returns: \<open>C_list\<close>, or the four lists in the complete mode.\<close>

datatype trained = Simple "mat list" | Complete "mat list" "mat list" "mat list" vec

text \<open>
  \<^verbatim>\<open>recognition_train\<close>. \<^verbatim>\<open>apsExploreExponents[0]\<close> raises IndexError when \<^verbatim>\<open>apN\<close> is 0.
\<close>

definition recognition_train :: "library \<Rightarrow> reservoir \<Rightarrow> mat list \<Rightarrow> nat \<Rightarrow> string \<Rightarrow> (error + trained) \<times> reservoir" where
  "recognition_train np s datalist apN out_mode =
     (if apN = 0 then Inl IndexError
      else
        and_then (data_loop np apN datalist) (\<lambda>triples.
        let R_list = map fst triples;
            C_prem_list = map (\<lambda>t. fst (snd t)) triples;
            apt_list = map (\<lambda>t. snd (snd t)) triples;
            apt = sum_list apt_list / real (length apt_list) in
        and_then (phi_loop np apt C_prem_list) (\<lambda>C_list.
        if out_mode = ''complete'' then Inr (Complete C_list R_list C_prem_list apt_list)
        else Inr (Simple C_list))), s)"

section \<open>The specification's formulas\<close>

text \<open>
  The shrinkage conceptor of the specification, \<open>U \<cdot> diag(s / (s + a)) \<cdot> U\<^sup>T\<close> with
  \<open>a = alpha\<^sup>-\<^sup>2\<close>, from the factors \<open>U\<close> and \<open>S\<close> of a singular value decomposition.
\<close>

definition shrink :: "real \<Rightarrow> vec \<Rightarrow> vec" where
  "shrink a S = map (\<lambda>x. x / (x + a)) S"

definition shrinkage_conceptor :: "mat \<Rightarrow> vec \<Rightarrow> real \<Rightarrow> mat" where
  "shrinkage_conceptor U S alpha = mat_mul (mat_mul U (np_diag (shrink (1 / alpha ^ 2) S))) (np_T U)"

text \<open>
  The evidence as the specification words it: the sum of all the entries of
  \<open>testdata \<odot> (C \<cdot> testdata)\<close>, one number for each conceptor.
\<close>

definition pooled_evidence :: "mat \<Rightarrow> mat \<Rightarrow> real" where
  "pooled_evidence testdata C =
     sum_list (map sum_list (map2 (map2 (*)) testdata (mat_mul C testdata)))"


section \<open>Concrete inputs\<close>

text \<open>
  Instances of the library routines on diagonal matrices with a non-negative diagonal in
  decreasing order, where they are immediate: the singular value decomposition is
  \<open>(I, diagonal, I)\<close>, the inverse inverts the diagonal, the aperture adaptation is
  \<open>c / (c + g\<^sup>-\<^sup>2 (1 - c))\<close> on each diagonal entry, and the interpolant through points
  of one common height is constant. They serve to run the model on concrete inputs.
\<close>

definition diag_svd :: "mat \<Rightarrow> error + (mat \<times> vec \<times> mat)" where
  "diag_svd R = Inr (np_eye (nrows R), np_diagonal R, np_eye (nrows R))"

definition diag_inv :: "mat \<Rightarrow> error + mat" where
  "diag_inv M =
     (if list_ex (\<lambda>x. x = 0) (np_diagonal M) then Inl LinAlgError
      else Inr (np_diag (map inverse (np_diagonal M))))"

definition diag_PHI :: "mat \<Rightarrow> real \<Rightarrow> error + mat" where
  "diag_PHI C g = Inr (np_diag (map (\<lambda>c. c / (c + (1 / g ^ 2) * (1 - c))) (np_diagonal C)))"

definition flat_interp :: "vec \<Rightarrow> vec \<Rightarrow> vec \<Rightarrow> error + vec" where
  "flat_interp xs ys pts =
     (if ys \<noteq> [] \<and> list_all (\<lambda>y. y = hd ys) ys then Inr (map (\<lambda>x. hd ys) pts)
      else Inl ValueError)"

definition diag_lib :: library where
  "diag_lib = \<lparr> svd = diag_svd, inv = diag_inv, PHI = diag_PHI, interp1d = flat_interp \<rparr>"

text \<open>
  A reservoir with one input and one neuron, \<open>x' = tanh u\<close>, and its state after it was
  driven by the one-step pattern \<open>[[1]]\<close> with no washout.
\<close>

definition unit_reservoir :: reservoir where
  "unit_reservoir = init 1 1 1.5 1.5 0.2 0.01 0.0001 [[0]] [[1]] [[0]]"

definition driven_once :: reservoir where
  "driven_once = state_of (drive_reservoir diag_lib unit_reservoir [[1]] 0)"


section \<open>Evaluation\<close>

lemmas np_defs = nrows_def ncols_def np_dot_def mat_mul_def dotv_def col_def np_T_def np_zeros_def
  np_eye_def np_diag_def np_diagonal_def smul_def sdiv_def bcompat_def bdim_def stretch_def
  broadcast_def np_ew_def np_add_def np_sub_def np_mul_def np_tanh_def np_hstack_def column_def
  first_col_def set_col_def and_then_def np_size_def store_def

lemma driven_once_eval:
  "driven_once =
     unit_reservoir\<lparr> num_pattern := 1, x_collectors := [[[tanh 1]]],
       pattern_Rs := [[[tanh 1 * tanh 1]]], UR_collectors := [[[1]]],
       SR_collectors := [[tanh 1 * tanh 1]], pattern_collectors := [[[1]]],
       all_train_args := [[tanh 1]], all_train_old_args := [[0]], all_train_outs := [[1]] \<rparr>"
  unfolding driven_once_def unit_reservoir_def init_def drive_reservoir_def
  by (simp add: np_defs step_def diag_lib_def diag_svd_def Let_def)

section \<open>Resetting the storage\<close>

lemma clean_storage_num_pattern: "num_pattern (clean_storage s) = num_pattern s"
  by (simp add: clean_storage_def)

text \<open>
  Claim C2: after \<^verbatim>\<open>clean_storage\<close>, with no further pattern driven, \<^verbatim>\<open>num_pattern\<close> is 0 and
  the aggregated training matrices are empty. On the reservoir that was driven once the
  aggregated matrices and the pattern records are emptied, but \<^verbatim>\<open>num_pattern\<close> is still 1:
  \<^verbatim>\<open>clean_storage\<close> repeats the assignments of \<^verbatim>\<open>__init__\<close> except \<^verbatim>\<open>self.num_pattern = 0\<close>.
\<close>

theorem clean_storage_keeps_num_pattern:
  "num_pattern (clean_storage driven_once) = 1
   \<and> pattern_Rs (clean_storage driven_once) = []
   \<and> all_train_args (clean_storage driven_once) = []
   \<and> all_train_old_args (clean_storage driven_once) = []
   \<and> all_train_outs (clean_storage driven_once) = []
   \<and> num_pattern unit_reservoir = 0"
  by (simp add: driven_once_eval clean_storage_def unit_reservoir_def init_def)

section \<open>Computing the projectors\<close>

lemma tanh_1_pos: "0 < tanh (1::real)"
  by simp

lemma shrink_denominator: "a \<noteq> 0 \<Longrightarrow> 0 < tanh 1 * tanh (1::real) + 1 / a ^ 2"
  by (intro add_nonneg_pos) simp_all

lemma projector_driven_once:
  assumes "a \<noteq> 0"
  shows "projector diag_lib 1 [[tanh 1 * tanh 1]] a =
     Inr ([[tanh 1 * tanh 1 / (tanh 1 * tanh 1 + 1 / a ^ 2)]], [[1]],
          [tanh 1 * tanh 1 / (tanh 1 * tanh 1 + 1 / a ^ 2)], [tanh 1 * tanh 1])"
proof -
  have "tanh 1 * tanh (1::real) + 1 / a ^ 2 \<noteq> 0"
    using shrink_denominator [OF assms] by simp
  then show ?thesis
    using assms
    by (simp add: projector_def np_defs diag_lib_def diag_svd_def diag_inv_def Let_def
        divide_inverse)
qed

lemma compute_projectors_driven_once:
  "compute_projectors diag_lib driven_once alphas =
     (if alphas = [] then Raised IndexError driven_once
      else Done (driven_once\<lparr>
        Cs0 := [[[tanh 1 * tanh 1 / (tanh 1 * tanh 1 + 1 / 100)]]], Cs1 := [[[1]]],
        Cs2 := [[tanh 1 * tanh 1 / (tanh 1 * tanh 1 + 1 / 100)]],
        Cs3 := [[tanh 1 * tanh 1]] \<rparr>))"
  using projector_driven_once [of 10]
  by (simp add: compute_projectors_def compute_projector_def driven_once_eval unit_reservoir_def
      init_def)

lemma shrink_differs: "0 < (t::real) \<Longrightarrow> t / (t + 1 / 100) \<noteq> t / (t + 1)"
  by (simp add: frac_eq_eq add_pos_pos algebra_simps)

text \<open>
  Claim C1: \<^verbatim>\<open>compute_projectors(alphas)\<close> computes the conceptor of pattern \<open>i\<close> at the
  aperture \<^verbatim>\<open>alphas[i]\<close>. On the reservoir driven once, with \<^verbatim>\<open>alphas = [1]\<close>, the stored
  conceptor is the one of aperture 10, \<open>r / (r + 1/100)\<close> for \<open>r = tanh\<^sup>2 1\<close>; the conceptor
  of aperture 1 is \<open>r / (r + 1)\<close>, a different number.
\<close>

theorem compute_projectors_default_aperture:
  "Cs0 (state_of (compute_projectors diag_lib driven_once [1])) =
     [[[tanh 1 * tanh 1 / (tanh 1 * tanh 1 + 1 / 100)]]]
   \<and> shrinkage_conceptor [[1]] [tanh 1 * tanh 1] 1 = [[tanh 1 * tanh 1 / (tanh 1 * tanh 1 + 1)]]
   \<and> tanh 1 * tanh 1 / (tanh 1 * tanh 1 + 1 / 100) \<noteq> tanh 1 * tanh 1 / (tanh 1 * tanh (1::real) + 1)"
proof -
  have "0 < tanh 1 * tanh (1::real)" by simp
  then have "tanh 1 * tanh 1 / (tanh 1 * tanh 1 + 1 / 100) \<noteq> tanh 1 * tanh 1 / (tanh 1 * tanh (1::real) + 1)"
    by (rule shrink_differs)
  then show ?thesis
    by (simp add: compute_projectors_driven_once shrinkage_conceptor_def shrink_def np_defs)
qed











section \<open>Recognition\<close>

text \<open>
  Claim C10: \<^verbatim>\<open>recognition_train\<close> and \<^verbatim>\<open>recognition_predict\<close> leave every field of the
  reservoir as it was, whether they return or raise.
\<close>

theorem recognition_leaves_reservoir:
  "snd (recognition_train np s datalist apN out_mode) = s
   \<and> snd (recognition_predict s testdata C_list) = s"
  by (simp add: recognition_train_def recognition_predict_def)

end
